theory Spec2Isabelle
  imports Main
begin

section \<open>JavaScript values\<close>

text \<open>
  The values the client and the server exchange are the values \<open>JSON.parse\<close> produces,
  together with \<open>undefined\<close> (an omitted argument, a missing property). Numbers are
  modelled as integers: the code only tests them for truthiness (zero is falsy), compares them
  and prints them. An object is the list of its own properties, in insertion order; a parsed
  object has distinct keys and a property read takes the first binding of the key.
\<close>

datatype jsval =
    JUndefined
  | JNull
  | JBool bool
  | JNum int
  | JStr string
  | JArr "jsval list"
  | JObj "(string \<times> jsval) list"

text \<open>
  A thrown exception object: its \<open>name\<close> and its \<open>message\<close>. \<open>new Error(msg)\<close> has the
  name \<open>Error\<close>; the engine raises \<open>TypeError\<close> on a property read of \<open>null\<close> or
  \<open>undefined\<close> and on \<open>in\<close> applied to a primitive (message texts as V8 words them).
\<close>

datatype js_error = JsError (err_name: string) (err_message: string)

definition Error :: "string \<Rightarrow> js_error" where
  "Error msg = JsError ''Error'' msg"

definition TypeError :: "string \<Rightarrow> js_error" where
  "TypeError msg = JsError ''TypeError'' msg"

text \<open>Sequencing of computations that may throw: \<open>Inl\<close> is the thrown exception.\<close>

definition bindE :: "'e + 'a \<Rightarrow> ('a \<Rightarrow> 'e + 'b) \<Rightarrow> 'e + 'b" where
  "bindE m f = (case m of Inl e \<Rightarrow> Inl e | Inr x \<Rightarrow> f x)"

text \<open>\<open>!!v\<close>: the values that count as true in a condition.\<close>

fun truthy :: "jsval \<Rightarrow> bool" where
  "truthy JUndefined = False"
| "truthy JNull = False"
| "truthy (JBool b) = b"
| "truthy (JNum n) = (n \<noteq> 0)"
| "truthy (JStr s) = (s \<noteq> [])"
| "truthy (JArr xs) = True"
| "truthy (JObj kvs) = True"

text \<open>\<open>typeof v\<close>; \<open>null\<close> and arrays are of type \<open>object\<close>.\<close>

fun typeof :: "jsval \<Rightarrow> string" where
  "typeof JUndefined = ''undefined''"
| "typeof JNull = ''object''"
| "typeof (JBool b) = ''boolean''"
| "typeof (JNum n) = ''number''"
| "typeof (JStr s) = ''string''"
| "typeof (JArr xs) = ''object''"
| "typeof (JObj kvs) = ''object''"

fun isArray :: "jsval \<Rightarrow> bool" where
  "isArray (JArr xs) = True"
| "isArray v = False"

text \<open>Decimal printing of numbers, as \<open>String(n)\<close> and template literals do.\<close>

fun show_nat :: "nat \<Rightarrow> string" where
  "show_nat n =
     (if n < 10 then [''0123456789'' ! n]
      else show_nat (n div 10) @ [''0123456789'' ! (n mod 10)])"

declare show_nat.simps [simp del]

definition show_int :: "int \<Rightarrow> string" where
  "show_int i = (if i < 0 then ''-'' @ show_nat (nat (- i)) else show_nat (nat i))"

text \<open>\<open>String(v)\<close> for the primitive values.\<close>

fun js_String :: "jsval \<Rightarrow> string" where
  "js_String JUndefined = ''undefined''"
| "js_String JNull = ''null''"
| "js_String (JBool b) = (if b then ''true'' else ''false'')"
| "js_String (JNum n) = show_int n"
| "js_String (JStr s) = s"
| "js_String (JArr xs) = ''[object Array]''"
| "js_String (JObj kvs) = ''[object Object]''"

definition quoted :: "string \<Rightarrow> string" where
  "quoted s = [CHR 0x27] @ s @ [CHR 0x27]"

text \<open>
  A property read \<open>v.k\<close>, for the property names the program uses (\<open>jsonrpc\<close>, \<open>method\<close>,
  \<open>params\<close>, \<open>id\<close>, \<open>result\<close>, \<open>error\<close>, \<open>code\<close>, \<open>message\<close>, \<open>data\<close>): none of them
  is a member of a prototype or of an array. Reading a property of \<open>null\<close> or \<open>undefined\<close>
  throws; reading a missing property gives \<open>undefined\<close>.
\<close>

fun get_prop :: "jsval \<Rightarrow> string \<Rightarrow> js_error + jsval" where
  "get_prop JUndefined k =
     Inl (TypeError (''Cannot read properties of undefined (reading '' @ quoted k @ '')''))"
| "get_prop JNull k =
     Inl (TypeError (''Cannot read properties of null (reading '' @ quoted k @ '')''))"
| "get_prop (JObj kvs) k = Inr (case map_of kvs k of None \<Rightarrow> JUndefined | Some v \<Rightarrow> v)"
| "get_prop v k = Inr JUndefined"

text \<open>\<open>k in v\<close>: throws on a primitive; an array has none of the names above.\<close>

fun in_op :: "string \<Rightarrow> jsval \<Rightarrow> js_error + bool" where
  "in_op k (JObj kvs) = Inr (k \<in> fst ` set kvs)"
| "in_op k (JArr xs) = Inr False"
| "in_op k v =
     Inl (TypeError (''Cannot use 'in' operator to search for '' @ quoted k @ '' in '' @ js_String v))"

section \<open>Client: response validation\<close>

text \<open>
  \<open>validateRPCResponse\<close> returns \<open>true\<close> or throws. The four checks are made in the
  source's order; the third one throws only when neither key is present.
\<close>

definition validateRPCResponse :: "jsval \<Rightarrow> js_error + bool" where
  \<open>validateRPCResponse response =
     (if \<not> truthy response \<or> typeof response \<noteq> ''object'' then
        Inl (Error ''Invalid response: not an object'')
      else bindE (get_prop response ''jsonrpc'') (\<lambda>jsonrpc.
        if jsonrpc \<noteq> JStr ''2.0'' then
          Inl (Error ''Invalid response: jsonrpc version must be "2.0"'')
        else bindE (in_op ''result'' response) (\<lambda>hasResult.
          bindE (if hasResult then Inr False
                 else bindE (in_op ''error'' response) (\<lambda>hasError. Inr (\<not> hasError)))
            (\<lambda>neither.
          if neither then
            Inl (Error ''Invalid response: must contain either result or error'')
          else bindE (in_op ''error'' response) (\<lambda>hasError.
            if hasError then
              bindE (get_prop response ''error'') (\<lambda>err.
              bindE (get_prop err ''code'') (\<lambda>code.
              bindE (if \<not> truthy code then Inr True
                     else bindE (get_prop err ''message'') (\<lambda>message.
                       Inr (\<not> truthy message)))
                (\<lambda>incomplete.
              if incomplete then
                Inl (Error ''Invalid error response: must contain code and message'')
              else Inr True)))
            else Inr True)))))\<close>

section \<open>Server\<close>

text \<open>
  What the handlers read from their surroundings: the clock (\<open>Date.now()\<close> in milliseconds
  and its ISO 8601 rendering by \<open>toISOString\<close>), the zone offset in minutes
  (\<open>getTimezoneOffset\<close>) and the zone name the \<open>Intl\<close> interface reports.
\<close>

record server_env =
  date_now :: int
  iso_string :: string
  timezone_offset :: int
  timezone_name :: string

text \<open>What the route handler hands to the transport: a status and a body, or no body.\<close>

record http_reply =
  status :: nat
  body :: "jsval option"

text \<open>A default parameter value replaces an argument that is \<open>undefined\<close>.\<close>

definition default_arg :: "jsval \<Rightarrow> jsval \<Rightarrow> jsval" where
  "default_arg d v = (if v = JUndefined then d else v)"

definition createResponse :: "jsval \<Rightarrow> jsval \<Rightarrow> jsval" where
  "createResponse result id0 =
     (let id = default_arg JNull id0
      in JObj [(''jsonrpc'', JStr ''2.0''), (''result'', result), (''id'', id)])"

definition createErrorResponse :: "jsval \<Rightarrow> jsval \<Rightarrow> jsval \<Rightarrow> jsval \<Rightarrow> jsval" where
  "createErrorResponse code message data0 id0 =
     (let data = default_arg JNull data0;
          id = default_arg JNull id0;
          error = [(''code'', code), (''message'', message)]
      in JObj [(''jsonrpc'', JStr ''2.0''),
               (''error'', JObj (if data \<noteq> JNull then error @ [(''data'', data)] else error)),
               (''id'', id)])"

definition getCurrentTime :: "server_env \<Rightarrow> jsval" where
  "getCurrentTime env = JObj [(''timestamp'', JStr (iso_string env))]"

definition padStart :: "nat \<Rightarrow> char \<Rightarrow> string \<Rightarrow> string" where
  "padStart n c s = replicate (n - length s) c @ s"

definition getTimeZone :: "server_env \<Rightarrow> jsval" where
  "getTimeZone env =
     (let offsetMs = timezone_offset env;
          offsetHours = \<bar>offsetMs\<bar> div 60;
          offsetMinutes = \<bar>offsetMs\<bar> mod 60;
          sign = (if offsetMs > 0 then ''-'' else ''+'');
          offset = sign @ padStart 2 (CHR ''0'') (show_int offsetHours) @ '':''
                     @ padStart 2 (CHR ''0'') (show_int offsetMinutes)
      in JObj [(''timezone'', JStr (timezone_name env)), (''offset'', JStr offset)])"

definition getUnixTimestamp :: "server_env \<Rightarrow> jsval" where
  "getUnixTimestamp env = JObj [(''timestamp'', JNum (date_now env div 1000))]"

text \<open>
  \<open>routeMethod\<close> returns the handler's result (\<open>Inr\<close>) or throws a plain object with
  \<open>code\<close>, \<open>message\<close> and \<open>data\<close> (\<open>Inl\<close>). The \<open>switch\<close> compares with \<open>===\<close>.
\<close>

definition routeMethod :: "server_env \<Rightarrow> jsval \<Rightarrow> jsval \<Rightarrow> jsval + jsval" where
  "routeMethod env method params =
     (if typeof method \<noteq> ''string'' then
        Inl (JObj [(''code'', JNum (- 32600)), (''message'', JStr ''Invalid Request''),
                   (''data'', JStr ''Method must be a string'')])
      else if method = JStr ''getCurrentTime'' then Inr (getCurrentTime env)
      else if method = JStr ''getTimeZone'' then Inr (getTimeZone env)
      else if method = JStr ''getUnixTimestamp'' then Inr (getUnixTimestamp env)
      else
        Inl (JObj [(''code'', JNum (- 32601)), (''message'', JStr ''Method not found''),
                   (''data'', JStr (''Unknown method: '' @ js_String method))]))"

text \<open>
  The handler of \<open>POST /rpc\<close>, on the parsed body. \<open>rpc_try\<close> is the body of the outer
  \<open>try\<close>: an exception raised in it (also one raised inside the inner \<open>catch\<close>) reaches
  the outer \<open>catch\<close>, which answers with status 500.
\<close>

definition rpc_try :: "server_env \<Rightarrow> jsval \<Rightarrow> js_error + http_reply" where
  \<open>rpc_try env body0 =
     (if \<not> truthy body0 \<or> typeof body0 \<noteq> ''object'' \<or> isArray body0 then
        Inr \<lparr>status = 400, body = Some (createErrorResponse (JNum (- 32600))
               (JStr ''Invalid Request'') (JStr ''Request must be a JSON object'') JUndefined)\<rparr>
      else
        bindE (get_prop body0 ''jsonrpc'') (\<lambda>jsonrpc.
        bindE (get_prop body0 ''method'') (\<lambda>method.
        bindE (get_prop body0 ''params'') (\<lambda>params0.
        bindE (get_prop body0 ''id'') (\<lambda>id.
        let params = default_arg (JObj []) params0 in
        if jsonrpc \<noteq> JStr ''2.0'' then
          Inr \<lparr>status = 400, body = Some (createErrorResponse (JNum (- 32600))
                 (JStr ''Invalid Request'') (JStr ''jsonrpc must be "2.0"'') id)\<rparr>
        else if method = JUndefined then
          Inr \<lparr>status = 400, body = Some (createErrorResponse (JNum (- 32600))
                 (JStr ''Invalid Request'') (JStr ''method is required'') id)\<rparr>
        else
          let isNotification = (id = JUndefined) in
          (case routeMethod env method params of
             Inr result \<Rightarrow>
               if \<not> isNotification then
                 Inr \<lparr>status = 200, body = Some (createResponse result id)\<rparr>
               else Inr \<lparr>status = 204, body = None\<rparr>
           | Inl methodError \<Rightarrow>
               if \<not> isNotification then
                 bindE (get_prop methodError ''code'') (\<lambda>code.
                 bindE (get_prop methodError ''message'') (\<lambda>message.
                 bindE (get_prop methodError ''data'') (\<lambda>data.
                 Inr \<lparr>status = 200,
                      body = Some (createErrorResponse code message data id)\<rparr>)))
               else Inr \<lparr>status = 204, body = None\<rparr>))))))\<close>

definition post_rpc :: "server_env \<Rightarrow> jsval \<Rightarrow> http_reply" where
  "post_rpc env body0 =
     (case rpc_try env body0 of
        Inr reply \<Rightarrow> reply
      | Inl err \<Rightarrow>
          \<lparr>status = 500, body = Some (createErrorResponse (JNum (- 32603))
             (JStr ''Internal error'') (JStr (err_message err)) JNull)\<rparr>)"

section \<open>Client\<close>

subsection \<open>Configuration and state\<close>

definition TIMEOUT :: nat where
  "TIMEOUT = 10000"

definition RETRY_ATTEMPTS :: nat where
  "RETRY_ATTEMPTS = 3"

definition RETRY_DELAY :: nat where
  "RETRY_DELAY = 1000"

record history_entry =
  h_timestamp :: string
  h_method :: jsval
  h_request :: jsval
  h_response :: jsval
  h_success :: bool

record client_state =
  isLoading :: bool
  requestHistory :: "history_entry list"
  errorCount :: nat
  successCount :: nat
  totalRequests :: nat

text \<open>The state the script starts with.\<close>

definition STATE :: client_state where
  "STATE = \<lparr>isLoading = False, requestHistory = [], errorCount = 0, successCount = 0,
            totalRequests = 0\<rparr>"

subsection \<open>Building a request\<close>

text \<open>
  \<open>now\<close> is what \<open>Date.now()\<close> returns when the request is built. An omitted argument is
  \<open>undefined\<close>.
\<close>

definition createRPCRequest :: "int \<Rightarrow> jsval \<Rightarrow> jsval \<Rightarrow> jsval \<Rightarrow> jsval" where
  "createRPCRequest now method params0 id0 =
     (let params = default_arg (JObj []) params0;
          id = default_arg JNull id0
      in JObj [(''jsonrpc'', JStr ''2.0''), (''method'', method), (''params'', params),
               (''id'', if truthy id then id else JNum now)])"

subsection \<open>History\<close>

text \<open>\<open>stamp\<close> is \<open>new Date().toISOString()\<close> at the time of the call.\<close>

definition addToHistory ::
  "string \<Rightarrow> jsval \<Rightarrow> jsval \<Rightarrow> jsval \<Rightarrow> bool \<Rightarrow> client_state \<Rightarrow> client_state" where
  "addToHistory stamp method request response success s =
     (let historyEntry = \<lparr>h_timestamp = stamp, h_method = method, h_request = request,
                           h_response = response, h_success = success\<rparr>;
          pushed = requestHistory s @ [historyEntry]
      in s\<lparr>requestHistory := (if length pushed > 50 then tl pushed else pushed)\<rparr>)"

definition getHistory :: "client_state \<Rightarrow> history_entry list" where
  "getHistory s = requestHistory s"

definition clearHistory :: "client_state \<Rightarrow> client_state" where
  "clearHistory s =
     s\<lparr>requestHistory := [], errorCount := 0, successCount := 0, totalRequests := 0\<rparr>"

subsection \<open>One call\<close>

text \<open>
  What \<open>fetch\<close> settles with: it rejects (a network failure, or an \<open>AbortError\<close> when the
  timeout aborts the request), or it resolves with a response, given by its status, its status
  text and what \<open>response.json()\<close> settles with.
\<close>

datatype fetch_result =
    Rejected js_error
  | Responded nat string "js_error + jsval"

text \<open>
  The surroundings of one attempt: the clock when the request is built, the clock's ISO
  rendering when the outcome is recorded, and what the transport answers.
\<close>

record attempt_env =
  clock_ms :: int
  clock_iso :: string
  fetched :: fetch_result

definition response_ok :: "nat \<Rightarrow> bool" where
  "response_ok st = (200 \<le> st \<and> st \<le> 299)"

text \<open>\<open>logResponse\<close> writes to the console; its reads can throw before validation.\<close>

definition logResponse :: "jsval \<Rightarrow> js_error + unit" where
  "logResponse response =
     bindE (in_op ''error'' response) (\<lambda>hasError.
     bindE (get_prop response ''id'') (\<lambda>id.
       if hasError then
         bindE (get_prop response ''error'') (\<lambda>err.
         bindE (get_prop err ''code'') (\<lambda>code.
         bindE (get_prop err ''message'') (\<lambda>message.
         bindE (get_prop err ''data'') (\<lambda>data. Inr ()))))
       else bindE (get_prop response ''result'') (\<lambda>result. Inr ())))"

text \<open>
  \<open>callRPC\<close> runs in two steps, separated by the wait for the transport.
  \<open>callRPC_start\<close> is the part before \<open>await fetch\<close>: the guard, the flag, the request. It
  returns the request it sends, or nothing when the guard turns the call away.
  \<open>callRPC_settle\<close> is the rest, once the transport has settled: the \<open>try\<close> body
  (\<open>callRPC_try\<close>), the \<open>catch\<close> and the \<open>finally\<close>. The functions that update the page and
  write to the console do not touch the state and are left out.
\<close>

definition callRPC_start ::
  "attempt_env \<Rightarrow> jsval \<Rightarrow> jsval \<Rightarrow> client_state \<Rightarrow> jsval option \<times> client_state" where
  "callRPC_start env methodName params0 s =
     (let params = default_arg (JObj []) params0 in
      if isLoading s then (None, s)
      else (Some (createRPCRequest (clock_ms env) methodName params JUndefined),
            s\<lparr>isLoading := True, totalRequests := totalRequests s + 1\<rparr>))"

definition callRPC_try ::
  "attempt_env \<Rightarrow> jsval \<Rightarrow> jsval \<Rightarrow> client_state \<Rightarrow> (js_error + jsval) \<times> client_state" where
  "callRPC_try env methodName request s =
     (case fetched env of
        Rejected err \<Rightarrow> (Inl err, s)
      | Responded st statusText parsed \<Rightarrow>
          if \<not> response_ok st then
            (Inl (Error (''HTTP Error: '' @ show_nat st @ '' '' @ statusText)), s)
          else
            (case bindE parsed (\<lambda>data.
                    bindE (logResponse data) (\<lambda>u.
                    bindE (validateRPCResponse data) (\<lambda>v.
                    bindE (get_prop data ''error'') (\<lambda>derr. Inr (data, derr))))) of
               Inl err \<Rightarrow> (Inl err, s)
             | Inr (data, derr) \<Rightarrow>
                 if truthy derr then (Inr data, s\<lparr>errorCount := errorCount s + 1\<rparr>)
                 else (Inr data,
                       addToHistory (clock_iso env) methodName request data True
                         (s\<lparr>successCount := successCount s + 1\<rparr>))))"

definition callRPC_settle ::
  "attempt_env \<Rightarrow> jsval \<Rightarrow> jsval \<Rightarrow> client_state \<Rightarrow> (js_error + jsval) \<times> client_state" where
  "callRPC_settle env methodName request s =
     (case callRPC_try env methodName request s of
        (Inr data, s') \<Rightarrow> (Inr data, s'\<lparr>isLoading := False\<rparr>)
      | (Inl error, s') \<Rightarrow>
          (Inl error,
           (addToHistory (clock_iso env) methodName JNull
              (JObj [(''error'', JStr (err_message error))]) False
              (s'\<lparr>errorCount := errorCount s' + 1\<rparr>))\<lparr>isLoading := False\<rparr>))"

definition callRPC ::
  "attempt_env \<Rightarrow> jsval \<Rightarrow> jsval \<Rightarrow> client_state \<Rightarrow> (js_error + jsval) \<times> client_state" where
  "callRPC env methodName params s =
     (case callRPC_start env methodName params s of
        (None, s') \<Rightarrow> (Inr JUndefined, s')
      | (Some request, s') \<Rightarrow> callRPC_settle env methodName request s')"

subsection \<open>Retry\<close>

text \<open>
  The \<open>for\<close> loop of \<open>callRPCWithRetry\<close>, with its variables \<open>attempt\<close> and \<open>lastError\<close>.
  \<open>world k\<close> is the surroundings of attempt \<open>k\<close>. \<open>sleep\<close> between two attempts changes
  nothing in the state. After the loop, \<open>lastError.message\<close> is read: when the loop never
  ran, \<open>lastError\<close> is \<open>undefined\<close> and the read throws.
\<close>

function retry_loop ::
  "(nat \<Rightarrow> attempt_env) \<Rightarrow> jsval \<Rightarrow> jsval \<Rightarrow> nat \<Rightarrow> nat \<Rightarrow> js_error option \<Rightarrow> client_state
     \<Rightarrow> (js_error + jsval) \<times> client_state" where
  "retry_loop world methodName params maxRetries attempt lastError s =
     (if attempt \<le> maxRetries then
        (case callRPC (world attempt) methodName params s of
           (Inr data, s') \<Rightarrow> (Inr data, s')
         | (Inl error, s') \<Rightarrow>
             retry_loop world methodName params maxRetries (attempt + 1) (Some error) s')
      else
        (case lastError of
           None \<Rightarrow>
             (Inl (TypeError (''Cannot read properties of undefined (reading ''
                     @ quoted ''message'' @ '')'')), s)
         | Some e \<Rightarrow>
             (Inl (Error (''Failed after '' @ show_nat maxRetries @ '' attempts: ''
                     @ err_message e)), s)))"
  by pat_completeness auto
termination
  by (relation "measure (\<lambda>(w, m, p, maxRetries, attempt, le, s). maxRetries + 1 - attempt)") auto

declare retry_loop.simps [simp del]

text \<open>An omitted \<open>maxRetries\<close> (\<open>None\<close>) is \<open>CONFIG.RETRY_ATTEMPTS\<close>.\<close>

definition callRPCWithRetry ::
  "(nat \<Rightarrow> attempt_env) \<Rightarrow> jsval \<Rightarrow> jsval \<Rightarrow> nat option \<Rightarrow> client_state
     \<Rightarrow> (js_error + jsval) \<times> client_state" where
  "callRPCWithRetry world methodName params0 maxRetries0 s =
     (let params = default_arg (JObj []) params0;
          maxRetries = (case maxRetries0 of None \<Rightarrow> RETRY_ATTEMPTS | Some n \<Rightarrow> n)
      in retry_loop world methodName params maxRetries 1 None s)"

subsection \<open>The states the client can be in\<close>

text \<open>
  The states reached from the initial one by the operations that change the state, in any
  order and with any arguments and surroundings; the two steps of a call may be separated by
  other operations.
\<close>

inductive reachable :: "client_state \<Rightarrow> bool" where
  initial: "reachable STATE"
| started: "reachable s \<Longrightarrow> reachable (snd (callRPC_start env m p s))"
| settled: "reachable s \<Longrightarrow> reachable (snd (callRPC_settle env m rq s))"
| called: "reachable s \<Longrightarrow> reachable (snd (callRPC env m p s))"
| retried: "reachable s \<Longrightarrow> reachable (snd (callRPCWithRetry w m p n s))"
| recorded: "reachable s \<Longrightarrow> reachable (addToHistory stamp m rq rs ok s)"
| cleared: "reachable s \<Longrightarrow> reachable (clearHistory s)"

section \<open>Concrete surroundings\<close>

text \<open>
  A server clock and zone, a transport on which every request times out, and a transport that
  hands each request to the server above and returns its answer (an answer without a body makes
  \<open>response.json()\<close> fail). They are used to run the program on concrete inputs.
\<close>

definition example_env :: server_env where
  "example_env = \<lparr>date_now = 1736509800123, iso_string = ''2025-01-10T11:50:00.123Z'',
                   timezone_offset = - 330, timezone_name = ''Asia/Kolkata''\<rparr>"

definition status_text :: "nat \<Rightarrow> string" where
  "status_text st =
     (if st = 200 then ''OK'' else if st = 204 then ''No Content''
      else if st = 400 then ''Bad Request'' else ''Internal Server Error'')"

definition loopback :: "server_env \<Rightarrow> jsval \<Rightarrow> fetch_result" where
  "loopback senv request =
     (let reply = post_rpc senv request
      in Responded (status reply) (status_text (status reply))
           (case body reply of
              None \<Rightarrow> Inl (JsError ''SyntaxError'' ''Unexpected end of JSON input'')
            | Some b \<Rightarrow> Inr b))"

definition timeout_world :: "nat \<Rightarrow> attempt_env" where
  "timeout_world k =
     \<lparr>clock_ms = 1736509800000 + 1000 * int k, clock_iso = ''2025-01-10T11:50:10.000Z'',
      fetched = Rejected (JsError ''AbortError'' ''signal is aborted without reason'')\<rparr>"

definition server_world :: "jsval \<Rightarrow> nat \<Rightarrow> attempt_env" where
  "server_world methodName k =
     \<lparr>clock_ms = 1736509800000 + 1000 * int k, clock_iso = ''2025-01-10T11:50:00.123Z'',
      fetched = loopback example_env
                  (createRPCRequest (1736509800000 + 1000 * int k) methodName (JObj [])
                     JUndefined)\<rparr>"

definition example_entry :: history_entry where
  "example_entry =
     \<lparr>h_timestamp = ''2025-01-10T11:50:10.000Z'', h_method = JStr ''getCurrentTime'',
      h_request = JNull,
      h_response = JObj [(''error'', JStr ''signal is aborted without reason'')],
      h_success = False\<rparr>"

definition full_history :: client_state where
  "full_history = STATE\<lparr>requestHistory := replicate 50 example_entry\<rparr>"

definition not_found_response :: jsval where
  "not_found_response =
     JObj [(''jsonrpc'', JStr ''2.0''),
           (''error'', JObj [(''code'', JNum (- 32601)), (''message'', JStr ''Method not found''),
                             (''data'', JStr ''Unknown method: doesNotExist'')]),
           (''id'', JNum 1736509801000)]"

text \<open>A transport that settles every attempt in the same given way.\<close>

definition reply_world :: "fetch_result \<Rightarrow> nat \<Rightarrow> attempt_env" where
  "reply_world r k =
     \<lparr>clock_ms = 1736509800000 + 1000 * int k, clock_iso = ''2025-01-10T11:50:10.000Z'',
      fetched = r\<rparr>"

definition network_failure :: js_error where
  "network_failure = JsError ''TypeError'' ''Failed to fetch''"

definition empty_body :: js_error where
  "empty_body = JsError ''SyntaxError'' ''Unexpected end of JSON input''"

definition bad_version_response :: jsval where
  "bad_version_response =
     JObj [(''jsonrpc'', JStr ''1.0''), (''result'', JNum 1), (''id'', JNum 1736509801000)]"

definition timeout_error :: js_error where
  "timeout_error = JsError ''AbortError'' ''signal is aborted without reason''"

section \<open>Properties of the building blocks\<close>

subsection \<open>Values\<close>



lemma Error_neq_TypeError [simp]: "Error m \<noteq> TypeError m'" "TypeError m' \<noteq> Error m"
  by (simp_all add: Error_def TypeError_def)

lemma Error_inject [simp]: "Error m = Error m' \<longleftrightarrow> m = m'"
  by (simp add: Error_def)


lemma in_op_object: "in_op k (JObj kvs) = Inr (map_of kvs k \<noteq> None)"
  by (simp add: map_of_eq_None_iff)

lemma default_arg_idem [simp]: "default_arg d (default_arg d v) = default_arg d v"
  by (simp add: default_arg_def)

lemma show_nat_2: "show_nat 2 = ''2''"
  by (simp add: show_nat.simps)

subsection \<open>The validator, by the shape of the message\<close>



lemma validate_object:
  \<open>validateRPCResponse (JObj kvs) =
     (if map_of kvs ''jsonrpc'' \<noteq> Some (JStr ''2.0'') then
        Inl (Error ''Invalid response: jsonrpc version must be "2.0"'')
      else case map_of kvs ''error'' of
             None \<Rightarrow>
               if map_of kvs ''result'' = None then
                 Inl (Error ''Invalid response: must contain either result or error'')
               else Inr True
           | Some err \<Rightarrow>
               (case get_prop err ''code'' of
                  Inl e \<Rightarrow> Inl e
                | Inr code \<Rightarrow>
                    if truthy code \<and> (\<exists>m. get_prop err ''message'' = Inr m \<and> truthy m)
                    then Inr True
                    else Inl (Error ''Invalid error response: must contain code and message'')))\<close>
  unfolding validateRPCResponse_def in_op_object
  apply (cases "map_of kvs ''jsonrpc''"; cases "map_of kvs ''error''";
         cases "map_of kvs ''result''")
         apply (auto simp add: bindE_def split: sum.splits)
  subgoal for a b c by (cases a; simp)
  subgoal for a b c by (cases a; simp)
  done

subsection \<open>The route handler on an object\<close>

lemma rpc_try_object:
  \<open>rpc_try env (JObj kvs) =
     (let jsonrpc = (case map_of kvs ''jsonrpc'' of None \<Rightarrow> JUndefined | Some v \<Rightarrow> v);
          method = (case map_of kvs ''method'' of None \<Rightarrow> JUndefined | Some v \<Rightarrow> v);
          params = default_arg (JObj [])
                     (case map_of kvs ''params'' of None \<Rightarrow> JUndefined | Some v \<Rightarrow> v);
          id = (case map_of kvs ''id'' of None \<Rightarrow> JUndefined | Some v \<Rightarrow> v)
      in if jsonrpc \<noteq> JStr ''2.0'' then
           Inr \<lparr>status = 400, body = Some (createErrorResponse (JNum (- 32600))
                 (JStr ''Invalid Request'') (JStr ''jsonrpc must be "2.0"'') id)\<rparr>
         else if method = JUndefined then
           Inr \<lparr>status = 400, body = Some (createErrorResponse (JNum (- 32600))
                 (JStr ''Invalid Request'') (JStr ''method is required'') id)\<rparr>
         else (case routeMethod env method params of
                 Inr result \<Rightarrow>
                   if id \<noteq> JUndefined then
                     Inr \<lparr>status = 200, body = Some (createResponse result id)\<rparr>
                   else Inr \<lparr>status = 204, body = None\<rparr>
               | Inl methodError \<Rightarrow>
                   if id \<noteq> JUndefined then
                     bindE (get_prop methodError ''code'') (\<lambda>code.
                     bindE (get_prop methodError ''message'') (\<lambda>message.
                     bindE (get_prop methodError ''data'') (\<lambda>data.
                       Inr \<lparr>status = 200,
                            body = Some (createErrorResponse code message data id)\<rparr>)))
                   else Inr \<lparr>status = 204, body = None\<rparr>))\<close>
  by (simp add: rpc_try_def bindE_def Let_def)

subsection \<open>One call\<close>

lemma callRPC_start_busy: "isLoading s \<Longrightarrow> callRPC_start env m p s = (None, s)"
  by (simp add: callRPC_start_def)

lemma callRPC_start_idle:
  "\<not> isLoading s \<Longrightarrow>
     callRPC_start env m p s =
       (Some (createRPCRequest (clock_ms env) m (default_arg (JObj []) p) JUndefined),
        s\<lparr>isLoading := True, totalRequests := totalRequests s + 1\<rparr>)"
  by (simp add: callRPC_start_def)

lemma callRPC_busy: "isLoading s \<Longrightarrow> callRPC env m p s = (Inr JUndefined, s)"
  by (simp add: callRPC_def callRPC_start_busy)

lemma callRPC_idle:
  "\<not> isLoading s \<Longrightarrow>
     callRPC env m p s =
       callRPC_settle env m
         (createRPCRequest (clock_ms env) m (default_arg (JObj []) p) JUndefined)
         (s\<lparr>isLoading := True, totalRequests := totalRequests s + 1\<rparr>)"
  by (simp add: callRPC_def callRPC_start_idle)

lemma callRPC_default [simp]: "callRPC env m (default_arg (JObj []) p) s = callRPC env m p s"
  by (simp add: callRPC_def callRPC_start_def)

lemma addToHistory_fields [simp]:
  "isLoading (addToHistory st m rq rs ok s) = isLoading s"
  "totalRequests (addToHistory st m rq rs ok s) = totalRequests s"
  "errorCount (addToHistory st m rq rs ok s) = errorCount s"
  "successCount (addToHistory st m rq rs ok s) = successCount s"
  by (simp_all add: addToHistory_def Let_def)

lemma addToHistory_history:
  "requestHistory (addToHistory st m rq rs ok s) =
     (if length (requestHistory s) < 50 then requestHistory s else tl (requestHistory s))
       @ [\<lparr>h_timestamp = st, h_method = m, h_request = rq, h_response = rs, h_success = ok\<rparr>]"
  by (cases "requestHistory s") (simp_all add: addToHistory_def Let_def)

lemma addToHistory_bounded:
  "length (requestHistory s) \<le> 50 \<Longrightarrow>
     length (requestHistory (addToHistory st m rq rs ok s)) \<le> 50"
  by (simp add: addToHistory_history)

lemma callRPC_try_shape:
  "(\<exists>e. callRPC_try env m rq s = (Inl e, s)) \<or>
   (\<exists>d. callRPC_try env m rq s = (Inr d, s\<lparr>errorCount := errorCount s + 1\<rparr>)) \<or>
   (\<exists>d. callRPC_try env m rq s =
        (Inr d, addToHistory (clock_iso env) m rq d True
                  (s\<lparr>successCount := successCount s + 1\<rparr>)))"
  by (simp add: callRPC_try_def split: fetch_result.splits sum.splits prod.splits)

lemma callRPC_settle_cases:
  obtains (thrown) e where
      "callRPC_settle env m rq s =
         (Inl e, (addToHistory (clock_iso env) m JNull
                    (JObj [(''error'', JStr (err_message e))]) False
                    (s\<lparr>errorCount := errorCount s + 1\<rparr>))\<lparr>isLoading := False\<rparr>)"
  | (rpc_error) d where
      "callRPC_settle env m rq s =
         (Inr d, s\<lparr>errorCount := errorCount s + 1, isLoading := False\<rparr>)"
  | (success) d where
      "callRPC_settle env m rq s =
         (Inr d, (addToHistory (clock_iso env) m rq d True
                    (s\<lparr>successCount := successCount s + 1\<rparr>))\<lparr>isLoading := False\<rparr>)"
  using callRPC_try_shape [of env m rq s] by (auto simp add: callRPC_settle_def)

lemma callRPC_settle_flag [simp]: "\<not> isLoading (snd (callRPC_settle env m rq s))"
  by (cases rule: callRPC_settle_cases [of env m rq s]) simp_all

lemma callRPC_settle_total [simp]:
  "totalRequests (snd (callRPC_settle env m rq s)) = totalRequests s"
  by (cases rule: callRPC_settle_cases [of env m rq s]) simp_all

lemma callRPC_settle_bounded:
  "length (requestHistory s) \<le> 50 \<Longrightarrow>
     length (requestHistory (snd (callRPC_settle env m rq s))) \<le> 50"
  by (cases rule: callRPC_settle_cases [of env m rq s]) (simp_all add: addToHistory_history)

lemma callRPC_start_bounded:
  "length (requestHistory s) \<le> 50 \<Longrightarrow>
     length (requestHistory (snd (callRPC_start env m p s))) \<le> 50"
  by (simp add: callRPC_start_def)

lemma callRPC_bounded:
  "length (requestHistory s) \<le> 50 \<Longrightarrow>
     length (requestHistory (snd (callRPC env m p s))) \<le> 50"
  by (cases "isLoading s") (simp_all add: callRPC_busy callRPC_idle callRPC_settle_bounded)

lemma callRPC_throws:
  assumes "callRPC env m p s = (Inl e, s')"
  shows "\<not> isLoading s" and "\<not> isLoading s'" and "totalRequests s' = totalRequests s + 1"
proof -
  show idle: "\<not> isLoading s" using assms by (auto simp add: callRPC_busy)
  let ?rq = "createRPCRequest (clock_ms env) m (default_arg (JObj []) p) JUndefined"
  let ?s = "s\<lparr>isLoading := True, totalRequests := totalRequests s + 1\<rparr>"
  have s': "s' = snd (callRPC_settle env m ?rq ?s)"
    using assms idle by (simp add: callRPC_idle)
  show "\<not> isLoading s'" unfolding s' by simp
  show "totalRequests s' = totalRequests s + 1" unfolding s' by simp
qed

lemma callRPC_total_idle:
  "\<not> isLoading s \<Longrightarrow> totalRequests (snd (callRPC env m p s)) = totalRequests s + 1"
  by (simp add: callRPC_idle)

lemma callRPC_total_mono: "totalRequests s \<le> totalRequests (snd (callRPC env m p s))"
  by (cases "isLoading s") (simp_all add: callRPC_busy callRPC_idle)

subsection \<open>The retry loop\<close>

lemma retry_loop_throw:
  "attempt \<le> n \<Longrightarrow> callRPC (w attempt) m p s = (Inl e, s') \<Longrightarrow>
     retry_loop w m p n attempt le s = retry_loop w m p n (attempt + 1) (Some e) s'"
  by (subst retry_loop.simps) simp

lemma retry_loop_return:
  "attempt \<le> n \<Longrightarrow> callRPC (w attempt) m p s = (Inr d, s') \<Longrightarrow>
     retry_loop w m p n attempt le s = (Inr d, s')"
  by (subst retry_loop.simps) simp

lemma retry_loop_exhausted:
  "n < attempt \<Longrightarrow>
     retry_loop w m p n attempt (Some e) s =
       (Inl (Error (''Failed after '' @ show_nat n @ '' attempts: '' @ err_message e)), s)"
  by (subst retry_loop.simps) simp

lemma retry_loop_total_mono:
  "totalRequests s \<le> totalRequests (snd (retry_loop w m p n attempt le s))"
proof (induction w m p n attempt le s rule: retry_loop.induct)
  case (1 world methodName params maxRetries attempt lastError s)
  show ?case
  proof (cases "attempt \<le> maxRetries")
    case True
    obtain r s' where c: "callRPC (world attempt) methodName params s = (r, s')"
      by (cases "callRPC (world attempt) methodName params s")
    have m: "totalRequests s \<le> totalRequests s'"
      using callRPC_total_mono [of s "world attempt" methodName params] c by simp
    show ?thesis
    proof (cases r)
      case (Inl e)
      have "totalRequests s' \<le>
              totalRequests (snd (retry_loop world methodName params maxRetries (attempt + 1)
                                    (Some e) s'))"
        using 1 [OF True c [symmetric] Inl] .
      with c m Inl show ?thesis
        by (simp add: retry_loop_throw [OF True])
    next
      case (Inr d)
      with c m True show ?thesis by (simp add: retry_loop_return)
    qed
  next
    case False
    then show ?thesis by (subst retry_loop.simps) (simp split: option.splits)
  qed
qed

lemma retry_loop_bounded:
  "length (requestHistory s) \<le> 50 \<Longrightarrow>
     length (requestHistory (snd (retry_loop w m p n attempt le s))) \<le> 50"
proof (induction w m p n attempt le s rule: retry_loop.induct)
  case (1 world methodName params maxRetries attempt lastError s)
  show ?case
  proof (cases "attempt \<le> maxRetries")
    case True
    obtain r s' where c: "callRPC (world attempt) methodName params s = (r, s')"
      by (cases "callRPC (world attempt) methodName params s")
    have b: "length (requestHistory s') \<le> 50"
      using callRPC_bounded [OF 1(2), of "world attempt" methodName params] c by simp
    show ?thesis
    proof (cases r)
      case (Inl e)
      with 1(1) [OF True c [symmetric] Inl b] c show ?thesis
        by (simp add: retry_loop_throw [OF True])
    next
      case (Inr d)
      with c b True show ?thesis by (simp add: retry_loop_return)
    qed
  next
    case False
    with 1(2) show ?thesis by (subst retry_loop.simps) (simp split: option.splits)
  qed
qed

text \<open>After a throw with attempts left, the next attempt is made: two requests at least.\<close>

lemma retry_loop_second_attempt:
  assumes "k < n" and "callRPC (w k) m p s = (Inl e, s')"
  shows "totalRequests s + 2 \<le> totalRequests (snd (retry_loop w m p n k le s))"
proof -
  have k: "k \<le> n" and k1: "k + 1 \<le> n" using assms(1) by simp_all
  have idle: "\<not> isLoading s'" and t: "totalRequests s' = totalRequests s + 1"
    using callRPC_throws [OF assms(2)] by simp_all
  obtain r s'' where c: "callRPC (w (k + 1)) m p s' = (r, s'')"
    by (cases "callRPC (w (k + 1)) m p s'")
  have t': "totalRequests s'' = totalRequests s + 2"
    using callRPC_total_idle [OF idle, of "w (k + 1)" m p] c t by simp
  have step: "retry_loop w m p n k le s = retry_loop w m p n (k + 1) (Some e) s'"
    using retry_loop_throw [of k n w m p s e s' le] k assms(2) by simp
  show ?thesis
  proof (cases r)
    case (Inl e')
    have "retry_loop w m p n (k + 1) (Some e) s' = retry_loop w m p n (k + 1 + 1) (Some e') s''"
      using retry_loop_throw [of "k + 1" n w m p s' e' s'' "Some e"] k1 c Inl by simp
    moreover have "totalRequests s'' \<le>
        totalRequests (snd (retry_loop w m p n (k + 1 + 1) (Some e') s''))"
      by (rule retry_loop_total_mono)
    ultimately show ?thesis using step t' by simp
  next
    case (Inr d)
    have "retry_loop w m p n (k + 1) (Some e) s' = (Inr d, s'')"
      using retry_loop_return [of "k + 1" n w m p s' d s'' "Some e"] k1 c Inr by simp
    with step t' show ?thesis by simp
  qed
qed

text \<open>A valid response that carries an error is returned by the attempt, not thrown.\<close>

lemma callRPC_rpc_error:
  assumes "\<not> isLoading s" and "fetched env = Responded st txt (Inr data)" and "response_ok st"
    and "logResponse data = Inr ()" and "validateRPCResponse data = Inr True"
    and "get_prop data ''error'' = Inr err" and "truthy err"
  shows "callRPC env m p s =
           (Inr data, s\<lparr>isLoading := False, errorCount := errorCount s + 1,
                        totalRequests := totalRequests s + 1\<rparr>)"
  using assms
  by (simp add: callRPC_idle callRPC_settle_def callRPC_try_def bindE_def)

text \<open>
  The ways an attempt fails: the transport rejects (a timeout, a network failure), the status
  is not a success status, the body does not parse, or the parsed body makes \<open>logResponse\<close>
  or the validator throw. Each one is thrown by \<open>callRPC\<close>, after the \<open>catch\<close> has counted
  and recorded it and the \<open>finally\<close> has cleared the flag.
\<close>

lemma callRPC_failure:
  assumes "\<not> isLoading s"
    and "fetched env = Rejected e \<or>
         (\<exists>st phrase parsed. fetched env = Responded st phrase parsed \<and> \<not> response_ok st \<and>
            e = Error (''HTTP Error: '' @ show_nat st @ '' '' @ phrase)) \<or>
         (\<exists>st phrase. fetched env = Responded st phrase (Inl e) \<and> response_ok st) \<or>
         (\<exists>st phrase data. fetched env = Responded st phrase (Inr data) \<and> response_ok st \<and>
            (logResponse data = Inl e \<or>
             logResponse data = Inr () \<and> validateRPCResponse data = Inl e))"
  shows "callRPC env m p s =
           (Inl e,
            (addToHistory (clock_iso env) m JNull (JObj [(''error'', JStr (err_message e))]) False
               (s\<lparr>errorCount := errorCount s + 1, totalRequests := totalRequests s + 1\<rparr>))
              \<lparr>isLoading := False\<rparr>)"
proof -
  let ?rq = "createRPCRequest (clock_ms env) m (default_arg (JObj []) p) JUndefined"
  let ?s = "s\<lparr>isLoading := True, totalRequests := totalRequests s + 1\<rparr>"
  have "callRPC_try env m ?rq ?s = (Inl e, ?s)"
    using assms(2) by (auto simp add: callRPC_try_def bindE_def)
  then show ?thesis
    using assms(1) by (simp add: callRPC_idle callRPC_settle_def addToHistory_def Let_def)
qed

subsection \<open>The reachable states\<close>

lemma reachable_bounded: "reachable s \<Longrightarrow> length (requestHistory s) \<le> 50"
proof (induction rule: reachable.induct)
  case initial
  show ?case by (simp add: STATE_def)
next
  case (retried s w m p n)
  then show ?case by (simp add: callRPCWithRetry_def retry_loop_bounded)
qed (simp_all add: callRPC_start_bounded callRPC_settle_bounded callRPC_bounded
       addToHistory_bounded clearHistory_def)

lemma reachable_replicate:
  "n \<le> 50 \<Longrightarrow> reachable (STATE\<lparr>requestHistory := replicate n example_entry\<rparr>)"
proof (induction n)
  case 0
  have "STATE\<lparr>requestHistory := []\<rparr> = STATE" by (simp add: STATE_def)
  with initial show ?case by simp
next
  case (Suc n)
  then have r: "reachable (STATE\<lparr>requestHistory := replicate n example_entry\<rparr>)" by simp
  have "addToHistory ''2025-01-10T11:50:10.000Z'' (JStr ''getCurrentTime'') JNull
          (JObj [(''error'', JStr ''signal is aborted without reason'')]) False
          (STATE\<lparr>requestHistory := replicate n example_entry\<rparr>) =
        STATE\<lparr>requestHistory := replicate (Suc n) example_entry\<rparr>"
    using Suc.prems
    by (simp add: addToHistory_def Let_def example_entry_def replicate_append_same)
  with recorded [OF r] show ?case by metis
qed

subsection \<open>The program on the concrete surroundings\<close>

lemma timeout_attempt_1:
  "fst (callRPC (timeout_world 1) (JStr ''getCurrentTime'') JUndefined STATE) = Inl timeout_error"
  by code_simp

lemma timeout_attempt_2:
  "fst (callRPC (timeout_world 2) (JStr ''getCurrentTime'') JUndefined
          (snd (callRPC (timeout_world 1) (JStr ''getCurrentTime'') JUndefined STATE)))
     = Inl timeout_error"
  by code_simp

lemma not_found_fetched:
  "fetched (server_world (JStr ''doesNotExist'') 1) = Responded 200 ''OK'' (Inr not_found_response)"
  by code_simp

lemma not_found_logged: "logResponse not_found_response = Inr ()"
  by code_simp

lemma not_found_valid: "validateRPCResponse not_found_response = Inr True"
  by code_simp

lemma show_nat_400: "show_nat 400 = ''400''"
  by code_simp

lemma missing_method_fetched:
  "\<exists>parsed. fetched (server_world JUndefined 1) = Responded 400 ''Bad Request'' parsed"
  by (simp add: server_world_def loopback_def post_rpc_def rpc_try_object createRPCRequest_def
        default_arg_def status_text_def)

lemma bad_version_logged: "logResponse bad_version_response = Inr ()"
  by code_simp

lemma bad_version_invalid:
  \<open>validateRPCResponse bad_version_response =
     Inl (JsError ''Error'' ''Invalid response: jsonrpc version must be "2.0"'')\<close>
  by (simp add: bad_version_response_def validate_object Error_def)

section \<open>The claims\<close>

subsection \<open>C1: what the response validator accepts\<close>




subsection \<open>C2: a notification gets no body\<close>

text \<open>
  C2. A request that passes the checks of the route handler (an object, \<open>jsonrpc\<close> equal to
  \<open>2.0\<close>, a \<open>method\<close> present) and has no \<open>id\<close> is answered with status 204 and no body,
  whatever the method, hence both when the dispatcher returns a result and when it throws.
\<close>

theorem notification_no_body:
  assumes "map_of kvs ''jsonrpc'' = Some (JStr ''2.0'')"
    and "map_of kvs ''method'' = Some m" and "m \<noteq> JUndefined"
    and "map_of kvs ''id'' = None"
  shows "post_rpc env (JObj kvs) = \<lparr>status = 204, body = None\<rparr>"
  using assms
  by (simp add: post_rpc_def rpc_try_object split: sum.splits)

theorem notification_no_body_witness:
  "routeMethod example_env (JStr ''getUnixTimestamp'') (JObj []) =
     Inr (JObj [(''timestamp'', JNum 1736509800)]) \<and>
   post_rpc example_env
     (JObj [(''jsonrpc'', JStr ''2.0''), (''method'', JStr ''getUnixTimestamp'')]) =
     \<lparr>status = 204, body = None\<rparr> \<and>
   routeMethod example_env (JStr ''doesNotExist'') (JObj []) =
     Inl (JObj [(''code'', JNum (- 32601)), (''message'', JStr ''Method not found''),
                (''data'', JStr ''Unknown method: doesNotExist'')]) \<and>
   post_rpc example_env
     (JObj [(''jsonrpc'', JStr ''2.0''), (''method'', JStr ''doesNotExist'')]) =
     \<lparr>status = 204, body = None\<rparr>"
  using
    notification_no_body [of "[(''jsonrpc'', JStr ''2.0''), (''method'', JStr ''getUnixTimestamp'')]"
      "JStr ''getUnixTimestamp''" example_env]
    notification_no_body [of "[(''jsonrpc'', JStr ''2.0''), (''method'', JStr ''doesNotExist'')]"
      "JStr ''doesNotExist''" example_env]
  by (simp add: routeMethod_def getUnixTimestamp_def example_env_def)

subsection \<open>C3: a method that is not a string\<close>

text \<open>
  C3, as the code has it. A call (an \<open>id\<close> is present) whose \<open>method\<close> is present and is not
  a string passes the checks of the route handler and is turned down by the dispatcher, which
  throws the error with code -32600; the handler answers with that error, the \<open>id\<close> of the
  request and status 200.
\<close>

theorem non_string_method:
  assumes "map_of kvs ''jsonrpc'' = Some (JStr ''2.0'')"
    and "map_of kvs ''method'' = Some m" and "m \<noteq> JUndefined" and "typeof m \<noteq> ''string''"
    and "map_of kvs ''id'' = Some i" and "i \<noteq> JUndefined"
  shows "routeMethod env m params =
           Inl (JObj [(''code'', JNum (- 32600)), (''message'', JStr ''Invalid Request''),
                      (''data'', JStr ''Method must be a string'')]) \<and>
         post_rpc env (JObj kvs) =
           \<lparr>status = 200,
            body = Some (JObj [(''jsonrpc'', JStr ''2.0''),
                               (''error'', JObj [(''code'', JNum (- 32600)),
                                                 (''message'', JStr ''Invalid Request''),
                                                 (''data'', JStr ''Method must be a string'')]),
                               (''id'', i)])\<rparr>"
  using assms
  by (simp add: post_rpc_def rpc_try_object routeMethod_def bindE_def createErrorResponse_def
        default_arg_def)

theorem non_string_method_witness:
  "routeMethod example_env (JNum 42) (JObj []) =
     Inl (JObj [(''code'', JNum (- 32600)), (''message'', JStr ''Invalid Request''),
                (''data'', JStr ''Method must be a string'')]) \<and>
   post_rpc example_env
     (JObj [(''jsonrpc'', JStr ''2.0''), (''method'', JNum 42), (''id'', JStr ''a'')]) =
     \<lparr>status = 200,
      body = Some (JObj [(''jsonrpc'', JStr ''2.0''),
                         (''error'', JObj [(''code'', JNum (- 32600)),
                                           (''message'', JStr ''Invalid Request''),
                                           (''data'', JStr ''Method must be a string'')]),
                         (''id'', JStr ''a'')])\<rparr>"
  using non_string_method [of "[(''jsonrpc'', JStr ''2.0''), (''method'', JNum 42),
      (''id'', JStr ''a'')]" "JNum 42" "JStr ''a''" example_env "JObj []"]
  by simp

text \<open>The call with method 42 and id 1 is answered with status 200, not 400.\<close>

theorem non_string_method_counterexample:
  "post_rpc example_env
     (JObj [(''jsonrpc'', JStr ''2.0''), (''method'', JNum 42), (''id'', JNum 1)]) =
     \<lparr>status = 200,
      body = Some (JObj [(''jsonrpc'', JStr ''2.0''),
                         (''error'', JObj [(''code'', JNum (- 32600)),
                                           (''message'', JStr ''Invalid Request''),
                                           (''data'', JStr ''Method must be a string'')]),
                         (''id'', JNum 1)])\<rparr> \<and>
   status (post_rpc example_env
     (JObj [(''jsonrpc'', JStr ''2.0''), (''method'', JNum 42), (''id'', JNum 1)])) \<noteq> 400"
  by (simp add: post_rpc_def rpc_try_object routeMethod_def bindE_def createErrorResponse_def
        default_arg_def)

subsection \<open>C4: the id of a built request\<close>

text \<open>
  C4, as the code has it. A supplied id that is truthy is the id of the request. When the id
  is omitted, the id is the reading of the clock in milliseconds, so that two requests built
  without an id have distinct ids exactly when their clock readings differ.
\<close>

theorem createRPCRequest_id:
  "(truthy i \<longrightarrow> get_prop (createRPCRequest now m p i) ''id'' = Inr i) \<and>
   get_prop (createRPCRequest now m p JUndefined) ''id'' = Inr (JNum now) \<and>
   (get_prop (createRPCRequest now1 m1 p1 JUndefined) ''id'' =
      get_prop (createRPCRequest now2 m2 p2 JUndefined) ''id'' \<longleftrightarrow> now1 = now2)"
  by (auto simp add: createRPCRequest_def default_arg_def)

theorem createRPCRequest_id_witness:
  "truthy (JStr ''req-7'') \<and>
   get_prop (createRPCRequest 1736509800123 (JStr ''getCurrentTime'') JUndefined (JStr ''req-7''))
       ''id'' = Inr (JStr ''req-7'') \<and>
   get_prop (createRPCRequest 1736509800123 (JStr ''getCurrentTime'') JUndefined JUndefined) ''id''
     \<noteq> get_prop (createRPCRequest 1736509800124 (JStr ''getCurrentTime'') JUndefined JUndefined)
           ''id''"
  using createRPCRequest_id [of "JStr ''req-7''" 1736509800123 "JStr ''getCurrentTime''" JUndefined
      1736509800123 "JStr ''getCurrentTime''" JUndefined 1736509800124 "JStr ''getCurrentTime''"
      JUndefined]
  by (simp add: createRPCRequest_def default_arg_def)

text \<open>
  Two different requests built without an id at the same clock reading have the same id, and
  the supplied id 0 is replaced by the clock reading.
\<close>

theorem createRPCRequest_id_counterexample:
  "get_prop (createRPCRequest 1736509800123 (JStr ''getCurrentTime'') JUndefined JUndefined) ''id''
     = Inr (JNum 1736509800123) \<and>
   get_prop (createRPCRequest 1736509800123 (JStr ''getTimeZone'') JUndefined JUndefined) ''id''
     = Inr (JNum 1736509800123) \<and>
   get_prop (createRPCRequest 1736509800123 (JStr ''getCurrentTime'') JUndefined (JNum 0)) ''id''
     \<noteq> Inr (JNum 0)"
  by (simp add: createRPCRequest_def default_arg_def)

subsection \<open>C5: what the retry loop retries\<close>

text \<open>
  C5, as the code has it. \<open>callRPCWithRetry\<close> is the loop started at attempt 1. Whenever an
  attempt throws, whatever the exception, and attempts remain, the loop goes on with the next
  attempt, so that at least two requests are counted. An error that the server reports in a
  valid response with a success status is not thrown by the attempt: the attempt counts one
  error and returns the response, and the loop returns it without a further attempt. An
  attempt made while no call is outstanding throws, and so is followed by the next attempt when
  attempts remain, in each of these cases: the transport rejects (a timeout, a network
  failure); the status is not a success status; the body does not parse; the parsed body
  makes \<open>logResponse\<close> or the validator throw. The loop is followed as it runs by itself,
  with no other call started between its attempts.
\<close>

theorem retry_after_throw_only:
  "callRPCWithRetry w m p (Some n) s = retry_loop w m (default_arg (JObj []) p) n 1 None s \<and>
   (k \<le> n \<and> callRPC (w k) m p s = (Inl e, s') \<longrightarrow>
      retry_loop w m p n k le s = retry_loop w m p n (k + 1) (Some e) s' \<and>
      (k < n \<longrightarrow> totalRequests s + 2 \<le> totalRequests (snd (retry_loop w m p n k le s)))) \<and>
   (k \<le> n \<and> \<not> isLoading s \<and> fetched (w k) = Responded st txt (Inr data) \<and> response_ok st \<and>
    logResponse data = Inr () \<and> validateRPCResponse data = Inr True \<and>
    get_prop data ''error'' = Inr err \<and> truthy err \<longrightarrow>
      retry_loop w m p n k le s =
        (Inr data, s\<lparr>isLoading := False, errorCount := errorCount s + 1,
                     totalRequests := totalRequests s + 1\<rparr>)) \<and>
   (k < n \<and> \<not> isLoading s \<and>
    (fetched (w k) = Rejected f \<or>
     (\<exists>st phrase parsed. fetched (w k) = Responded st phrase parsed \<and> \<not> response_ok st \<and>
        f = Error (''HTTP Error: '' @ show_nat st @ '' '' @ phrase)) \<or>
     (\<exists>st phrase. fetched (w k) = Responded st phrase (Inl f) \<and> response_ok st) \<or>
     (\<exists>st phrase data. fetched (w k) = Responded st phrase (Inr data) \<and> response_ok st \<and>
        (logResponse data = Inl f \<or>
         logResponse data = Inr () \<and> validateRPCResponse data = Inl f))) \<longrightarrow>
      callRPC (w k) m p s =
        (Inl f,
         (addToHistory (clock_iso (w k)) m JNull (JObj [(''error'', JStr (err_message f))]) False
            (s\<lparr>errorCount := errorCount s + 1, totalRequests := totalRequests s + 1\<rparr>))
           \<lparr>isLoading := False\<rparr>) \<and>
      retry_loop w m p n k le s =
        retry_loop w m p n (k + 1) (Some f) (snd (callRPC (w k) m p s)) \<and>
      totalRequests s + 2 \<le> totalRequests (snd (retry_loop w m p n k le s)))"
proof (intro conjI impI)
  show "callRPCWithRetry w m p (Some n) s = retry_loop w m (default_arg (JObj []) p) n 1 None s"
    by (simp add: callRPCWithRetry_def)
next
  assume a: "k \<le> n \<and> callRPC (w k) m p s = (Inl e, s')"
  then show "retry_loop w m p n k le s = retry_loop w m p n (k + 1) (Some e) s'"
    using retry_loop_throw [of k n w m p s e s' le] by simp
  assume "k < n"
  with a show "totalRequests s + 2 \<le> totalRequests (snd (retry_loop w m p n k le s))"
    using retry_loop_second_attempt [of k n w m p s e s' le] by simp
next
  assume a: "k \<le> n \<and> \<not> isLoading s \<and> fetched (w k) = Responded st txt (Inr data) \<and>
    response_ok st \<and> logResponse data = Inr () \<and> validateRPCResponse data = Inr True \<and>
    get_prop data ''error'' = Inr err \<and> truthy err"
  then have "callRPC (w k) m p s =
      (Inr data, s\<lparr>isLoading := False, errorCount := errorCount s + 1,
                   totalRequests := totalRequests s + 1\<rparr>)"
    using callRPC_rpc_error [of s "w k" st "txt" data err m p] by simp
  with a show "retry_loop w m p n k le s =
      (Inr data, s\<lparr>isLoading := False, errorCount := errorCount s + 1,
                   totalRequests := totalRequests s + 1\<rparr>)"
    using retry_loop_return [of k n w m p s data _ le] by simp
next
  let ?s' = "(addToHistory (clock_iso (w k)) m JNull (JObj [(''error'', JStr (err_message f))])
      False (s\<lparr>errorCount := errorCount s + 1, totalRequests := totalRequests s + 1\<rparr>))
        \<lparr>isLoading := False\<rparr>"
  assume a: "k < n \<and> \<not> isLoading s \<and>
    (fetched (w k) = Rejected f \<or>
     (\<exists>st phrase parsed. fetched (w k) = Responded st phrase parsed \<and> \<not> response_ok st \<and>
        f = Error (''HTTP Error: '' @ show_nat st @ '' '' @ phrase)) \<or>
     (\<exists>st phrase. fetched (w k) = Responded st phrase (Inl f) \<and> response_ok st) \<or>
     (\<exists>st phrase data. fetched (w k) = Responded st phrase (Inr data) \<and> response_ok st \<and>
        (logResponse data = Inl f \<or>
         logResponse data = Inr () \<and> validateRPCResponse data = Inl f)))"
  then have thrown: "callRPC (w k) m p s = (Inl f, ?s')"
    using callRPC_failure [of s "w k" f m p] by blast
  then show "callRPC (w k) m p s = (Inl f, ?s')" .
  from a have k: "k \<le> n" "k < n" by simp_all
  show "retry_loop w m p n k le s =
      retry_loop w m p n (k + 1) (Some f) (snd (callRPC (w k) m p s))"
    using retry_loop_throw [of k n w m p s f ?s' le] k(1) thrown by simp
  show "totalRequests s + 2 \<le> totalRequests (snd (retry_loop w m p n k le s))"
    using retry_loop_second_attempt [of k n w m p s f ?s' le] k(2) thrown by simp
qed

theorem retry_after_throw_only_witness:
  \<open>fst (callRPC (timeout_world 1) (JStr ''getCurrentTime'') JUndefined STATE) = Inl timeout_error \<and>
   2 \<le> totalRequests
         (snd (retry_loop timeout_world (JStr ''getCurrentTime'') JUndefined 3 1 None STATE)) \<and>
   retry_loop (server_world (JStr ''doesNotExist'')) (JStr ''doesNotExist'') JUndefined 3 1 None
       STATE =
     (Inr not_found_response, STATE\<lparr>errorCount := 1, totalRequests := 1\<rparr>) \<and>
   fst (callRPC (reply_world (Rejected network_failure) 1) (JStr ''getCurrentTime'') JUndefined
          STATE) = Inl network_failure \<and>
   2 \<le> totalRequests (snd (retry_loop (reply_world (Rejected network_failure))
           (JStr ''getCurrentTime'') JUndefined 3 1 None STATE)) \<and>
   fst (callRPC (server_world JUndefined 1) JUndefined JUndefined STATE) =
     Inl (JsError ''Error'' ''HTTP Error: 400 Bad Request'') \<and>
   2 \<le> totalRequests (snd (retry_loop (server_world JUndefined) JUndefined JUndefined 3 1 None
           STATE)) \<and>
   fst (callRPC (reply_world (Responded 204 ''No Content'' (Inl empty_body)) 1)
          (JStr ''getCurrentTime'') JUndefined STATE) = Inl empty_body \<and>
   2 \<le> totalRequests (snd (retry_loop (reply_world (Responded 204 ''No Content'' (Inl empty_body)))
           (JStr ''getCurrentTime'') JUndefined 3 1 None STATE)) \<and>
   fst (callRPC (reply_world (Responded 200 ''OK'' (Inr bad_version_response)) 1)
          (JStr ''getCurrentTime'') JUndefined STATE) =
     Inl (JsError ''Error'' ''Invalid response: jsonrpc version must be "2.0"'') \<and>
   2 \<le> totalRequests
         (snd (retry_loop (reply_world (Responded 200 ''OK'' (Inr bad_version_response)))
           (JStr ''getCurrentTime'') JUndefined 3 1 None STATE))\<close>
proof -
  let ?s1 = "snd (callRPC (timeout_world 1) (JStr ''getCurrentTime'') JUndefined STATE)"
  have thrown: "callRPC (timeout_world 1) (JStr ''getCurrentTime'') JUndefined STATE =
      (Inl timeout_error, ?s1)"
    using timeout_attempt_1 by (simp add: prod_eq_iff)
  have "(1::nat) \<le> 3 \<and>
      callRPC (timeout_world 1) (JStr ''getCurrentTime'') JUndefined STATE =
        (Inl timeout_error, ?s1)"
    using thrown by simp
  moreover have "(1::nat) < 3" by simp
  ultimately have again: "totalRequests STATE + 2 \<le> totalRequests
      (snd (retry_loop timeout_world (JStr ''getCurrentTime'') JUndefined 3 1 None STATE))"
    using retry_after_throw_only [of timeout_world "JStr ''getCurrentTime''" JUndefined 3 STATE 1
        timeout_error ?s1 None]
    by blast
  have err: "get_prop not_found_response ''error'' =
      Inr (JObj [(''code'', JNum (- 32601)), (''message'', JStr ''Method not found''),
                 (''data'', JStr ''Unknown method: doesNotExist'')])"
    by (simp add: not_found_response_def)
  have "(1::nat) \<le> 3 \<and> \<not> isLoading STATE \<and>
      fetched (server_world (JStr ''doesNotExist'') 1) =
        Responded 200 ''OK'' (Inr not_found_response) \<and>
      response_ok 200 \<and> logResponse not_found_response = Inr () \<and>
      validateRPCResponse not_found_response = Inr True \<and>
      get_prop not_found_response ''error'' =
        Inr (JObj [(''code'', JNum (- 32601)), (''message'', JStr ''Method not found''),
                   (''data'', JStr ''Unknown method: doesNotExist'')]) \<and>
      truthy (JObj [(''code'', JNum (- 32601)), (''message'', JStr ''Method not found''),
                    (''data'', JStr ''Unknown method: doesNotExist'')])"
    using not_found_fetched not_found_logged not_found_valid err
    by (simp add: STATE_def response_ok_def)
  then have returned: "retry_loop (server_world (JStr ''doesNotExist'')) (JStr ''doesNotExist'')
      JUndefined 3 1 None STATE =
      (Inr not_found_response,
       STATE\<lparr>isLoading := False, errorCount := errorCount STATE + 1,
             totalRequests := totalRequests STATE + 1\<rparr>)"
    using retry_after_throw_only [of "server_world (JStr ''doesNotExist'')" "JStr ''doesNotExist''"
        JUndefined 3 STATE 1 _ _ None 200 "''OK''" not_found_response
        "JObj [(''code'', JNum (- 32601)), (''message'', JStr ''Method not found''),
               (''data'', JStr ''Unknown method: doesNotExist'')]"]
    by blast
  let ?m = "JStr ''getCurrentTime''"
  have idle: "(1::nat) < 3 \<and> \<not> isLoading STATE" by (simp add: STATE_def)
  let ?W1 = "reply_world (Rejected network_failure)"
  have "fetched (?W1 1) = Rejected network_failure" by (simp add: reply_world_def)
  with idle have k1: "callRPC (?W1 1) ?m JUndefined STATE =
        (Inl network_failure, snd (callRPC (?W1 1) ?m JUndefined STATE)) \<and>
      totalRequests STATE + 2 \<le>
        totalRequests (snd (retry_loop ?W1 ?m JUndefined 3 1 None STATE))"
    using retry_after_throw_only [where w = ?W1 and m = ?m and p = JUndefined and n = 3
        and s = STATE and k = 1 and le = None and f = network_failure]
    by (metis snd_conv)
  let ?W2 = "server_world JUndefined"
  let ?f2 = "JsError ''Error'' ''HTTP Error: 400 Bad Request''"
  have "\<exists>st phrase parsed. fetched (?W2 1) = Responded st phrase parsed \<and> \<not> response_ok st \<and>
      ?f2 = Error (''HTTP Error: '' @ show_nat st @ '' '' @ phrase)"
    using missing_method_fetched by (auto simp add: response_ok_def Error_def show_nat_400)
  with idle have k2: "callRPC (?W2 1) JUndefined JUndefined STATE =
        (Inl ?f2, snd (callRPC (?W2 1) JUndefined JUndefined STATE)) \<and>
      totalRequests STATE + 2 \<le>
        totalRequests (snd (retry_loop ?W2 JUndefined JUndefined 3 1 None STATE))"
    using retry_after_throw_only [where w = ?W2 and m = JUndefined and p = JUndefined and n = 3
        and s = STATE and k = 1 and le = None and f = ?f2]
    by (metis snd_conv)
  let ?W3 = "reply_world (Responded 204 ''No Content'' (Inl empty_body))"
  have "\<exists>st phrase. fetched (?W3 1) = Responded st phrase (Inl empty_body) \<and> response_ok st"
    by (simp add: reply_world_def response_ok_def)
  with idle have k3: "callRPC (?W3 1) ?m JUndefined STATE =
        (Inl empty_body, snd (callRPC (?W3 1) ?m JUndefined STATE)) \<and>
      totalRequests STATE + 2 \<le>
        totalRequests (snd (retry_loop ?W3 ?m JUndefined 3 1 None STATE))"
    using retry_after_throw_only [where w = ?W3 and m = ?m and p = JUndefined and n = 3
        and s = STATE and k = 1 and le = None and f = empty_body]
    by (metis snd_conv)
  let ?W4 = "reply_world (Responded 200 ''OK'' (Inr bad_version_response))"
  let ?f4 = \<open>JsError ''Error'' ''Invalid response: jsonrpc version must be "2.0"''\<close>
  have "\<exists>st phrase data. fetched (?W4 1) = Responded st phrase (Inr data) \<and> response_ok st \<and>
      (logResponse data = Inl ?f4 \<or>
       logResponse data = Inr () \<and> validateRPCResponse data = Inl ?f4)"
    using bad_version_logged bad_version_invalid
    by (auto simp add: reply_world_def response_ok_def)
  with idle have k4: "callRPC (?W4 1) ?m JUndefined STATE =
        (Inl ?f4, snd (callRPC (?W4 1) ?m JUndefined STATE)) \<and>
      totalRequests STATE + 2 \<le>
        totalRequests (snd (retry_loop ?W4 ?m JUndefined 3 1 None STATE))"
    using retry_after_throw_only [where w = ?W4 and m = ?m and p = JUndefined and n = 3
        and s = STATE and k = 1 and le = None and f = ?f4]
    by (metis snd_conv)
  have base: "totalRequests STATE = 0" by (simp add: STATE_def)
  from again returned timeout_attempt_1 have first: "fst (callRPC (timeout_world 1)
        (JStr ''getCurrentTime'') JUndefined STATE) = Inl timeout_error \<and>
      2 \<le> totalRequests
         (snd (retry_loop timeout_world (JStr ''getCurrentTime'') JUndefined 3 1 None STATE)) \<and>
      retry_loop (server_world (JStr ''doesNotExist'')) (JStr ''doesNotExist'') JUndefined 3 1
          None STATE =
        (Inr not_found_response, STATE\<lparr>errorCount := 1, totalRequests := 1\<rparr>)"
    by (simp add: STATE_def)
  from k1 have r1: "fst (callRPC (?W1 1) ?m JUndefined STATE) = Inl network_failure \<and>
      2 \<le> totalRequests (snd (retry_loop ?W1 ?m JUndefined 3 1 None STATE))"
    using base by (metis add_0 fst_conv)
  from k2 have r2: "fst (callRPC (?W2 1) JUndefined JUndefined STATE) = Inl ?f2 \<and>
      2 \<le> totalRequests (snd (retry_loop ?W2 JUndefined JUndefined 3 1 None STATE))"
    using base by (metis add_0 fst_conv)
  from k3 have r3: "fst (callRPC (?W3 1) ?m JUndefined STATE) = Inl empty_body \<and>
      2 \<le> totalRequests (snd (retry_loop ?W3 ?m JUndefined 3 1 None STATE))"
    using base by (metis add_0 fst_conv)
  from k4 have r4: "fst (callRPC (?W4 1) ?m JUndefined STATE) = Inl ?f4 \<and>
      2 \<le> totalRequests (snd (retry_loop ?W4 ?m JUndefined 3 1 None STATE))"
    using base by (metis add_0 fst_conv)
  from first r1 r2 r3 r4 show ?thesis by blast
qed

text \<open>
  The server answers an unknown method with the error -32601 at status 200; with three
  attempts allowed the loop makes one request and returns that answer.
\<close>

theorem retry_after_throw_only_counterexample:
  "callRPCWithRetry (server_world (JStr ''doesNotExist'')) (JStr ''doesNotExist'') JUndefined
     (Some 3) STATE =
     (Inr (JObj [(''jsonrpc'', JStr ''2.0''),
                 (''error'', JObj [(''code'', JNum (- 32601)),
                                   (''message'', JStr ''Method not found''),
                                   (''data'', JStr ''Unknown method: doesNotExist'')]),
                 (''id'', JNum 1736509801000)]),
      \<lparr>isLoading = False, requestHistory = [], errorCount = 1, successCount = 0,
        totalRequests = 1\<rparr>)"
  by code_simp

subsection \<open>C6: a method without a handler\<close>

text \<open>
  C6. Dispatching a method name that is none of the three handled names throws the error with
  code -32601, whose \<open>data\<close> is the text \<open>Unknown method: \<close> followed by the requested name.
\<close>

theorem method_not_found:
  assumes "m \<notin> {''getCurrentTime'', ''getTimeZone'', ''getUnixTimestamp''}"
  shows "routeMethod env (JStr m) params =
           Inl (JObj [(''code'', JNum (- 32601)), (''message'', JStr ''Method not found''),
                      (''data'', JStr (''Unknown method: '' @ m))])"
  using assms by (simp add: routeMethod_def)

theorem method_not_found_witness:
  "routeMethod example_env (JStr ''doesNotExist'') (JObj []) =
     Inl (JObj [(''code'', JNum (- 32601)), (''message'', JStr ''Method not found''),
                (''data'', JStr ''Unknown method: doesNotExist'')])"
  using method_not_found [of "''doesNotExist''" example_env "JObj []"] by simp

subsection \<open>C7: a batch\<close>

text \<open>
  C7. A body that is an array, whatever its elements, is answered with status 400 and the
  single error -32600 with \<open>id\<close> \<open>null\<close>; the answer depends on no element and on none of
  the surroundings the handlers read.
\<close>

theorem batch_rejected:
  "post_rpc env (JArr xs) =
     \<lparr>status = 400,
      body = Some (JObj [(''jsonrpc'', JStr ''2.0''),
                         (''error'', JObj [(''code'', JNum (- 32600)),
                                           (''message'', JStr ''Invalid Request''),
                                           (''data'', JStr ''Request must be a JSON object'')]),
                         (''id'', JNull)])\<rparr>"
  by (simp add: post_rpc_def rpc_try_def createErrorResponse_def default_arg_def)

theorem batch_rejected_witness:
  "post_rpc example_env
     (JArr [JObj [(''jsonrpc'', JStr ''2.0''), (''method'', JStr ''getCurrentTime''),
                  (''params'', JObj []), (''id'', JNum 1)],
            JObj [(''jsonrpc'', JStr ''2.0''), (''method'', JStr ''getTimeZone''),
                  (''params'', JObj []), (''id'', JNum 2)]]) =
     \<lparr>status = 400,
      body = Some (JObj [(''jsonrpc'', JStr ''2.0''),
                         (''error'', JObj [(''code'', JNum (- 32600)),
                                           (''message'', JStr ''Invalid Request''),
                                           (''data'', JStr ''Request must be a JSON object'')]),
                         (''id'', JNull)])\<rparr>"
  using batch_rejected [of example_env
      "[JObj [(''jsonrpc'', JStr ''2.0''), (''method'', JStr ''getCurrentTime''),
              (''params'', JObj []), (''id'', JNum 1)],
        JObj [(''jsonrpc'', JStr ''2.0''), (''method'', JStr ''getTimeZone''),
              (''params'', JObj []), (''id'', JNum 2)]]"]
  by simp

subsection \<open>C8: exhaustion after two attempts\<close>

text \<open>
  C8, as the code has it. When both attempts throw, \<open>callRPCWithRetry\<close> with two attempts
  allowed makes two requests and throws a new exception of name \<open>Error\<close> whose message is
  \<open>Failed after 2 attempts: \<close> followed by the message of the exception of the second
  attempt. Of that exception the message alone is kept.
\<close>

theorem retry_exhausted:
  assumes "callRPC (w 1) m p s = (Inl e1, s1)" and "callRPC (w 2) m p s1 = (Inl e2, s2)"
  shows "callRPCWithRetry w m p (Some 2) s =
           (Inl (JsError ''Error'' (''Failed after 2 attempts: '' @ err_message e2)), s2) \<and>
         totalRequests s2 = totalRequests s + 2"
proof -
  let ?p = "default_arg (JObj []) p"
  have two: "(1::nat) + 1 = 2" by simp
  have a1: "callRPC (w 1) m ?p s = (Inl e1, s1)"
    using assms(1) by simp
  have a2: "callRPC (w (1 + 1)) m ?p s1 = (Inl e2, s2)"
    unfolding two using assms(2) by simp
  have "retry_loop w m ?p 2 1 None s = retry_loop w m ?p 2 (1 + 1) (Some e1) s1"
    using retry_loop_throw [of 1 2 w m ?p s e1 s1 None] a1 by simp
  also have "\<dots> = retry_loop w m ?p 2 (1 + 1 + 1) (Some e2) s2"
    using retry_loop_throw [of "1 + 1" 2 w m ?p s1 e2 s2 "Some e1"] a2 by simp
  also have "\<dots> =
      (Inl (Error (''Failed after '' @ show_nat 2 @ '' attempts: '' @ err_message e2)), s2)"
    using retry_loop_exhausted [of 2 "1 + 1 + 1" w m ?p e2 s2] by simp
  finally have "callRPCWithRetry w m p (Some 2) s =
      (Inl (JsError ''Error'' (''Failed after 2 attempts: '' @ err_message e2)), s2)"
    by (simp add: callRPCWithRetry_def show_nat_2 Error_def)
  moreover have "totalRequests s2 = totalRequests s + 2"
    using callRPC_throws(3) [OF assms(1)] callRPC_throws(3) [OF assms(2)] by simp
  ultimately show ?thesis by simp
qed

theorem retry_exhausted_witness:
  "fst (callRPC (timeout_world 1) (JStr ''getCurrentTime'') JUndefined STATE) = Inl timeout_error \<and>
   fst (callRPC (timeout_world 2) (JStr ''getCurrentTime'') JUndefined
          (snd (callRPC (timeout_world 1) (JStr ''getCurrentTime'') JUndefined STATE)))
     = Inl timeout_error \<and>
   fst (callRPCWithRetry timeout_world (JStr ''getCurrentTime'') JUndefined (Some 2) STATE) =
     Inl (JsError ''Error'' ''Failed after 2 attempts: signal is aborted without reason'') \<and>
   totalRequests
     (snd (callRPCWithRetry timeout_world (JStr ''getCurrentTime'') JUndefined (Some 2) STATE)) = 2"
proof -
  let ?s1 = "snd (callRPC (timeout_world 1) (JStr ''getCurrentTime'') JUndefined STATE)"
  let ?s2 = "snd (callRPC (timeout_world 2) (JStr ''getCurrentTime'') JUndefined ?s1)"
  have h1: "callRPC (timeout_world 1) (JStr ''getCurrentTime'') JUndefined STATE =
      (Inl timeout_error, ?s1)"
    using timeout_attempt_1 by (simp add: prod_eq_iff)
  have h2: "callRPC (timeout_world 2) (JStr ''getCurrentTime'') JUndefined ?s1 =
      (Inl timeout_error, ?s2)"
    using timeout_attempt_2 by (simp add: prod_eq_iff)
  from retry_exhausted [OF h1 h2] timeout_attempt_1 timeout_attempt_2 show ?thesis
    by (simp add: timeout_error_def STATE_def)
qed

text \<open>
  Two timeouts: the exception of the second attempt has the name \<open>AbortError\<close>, by which
  \<open>callRPC\<close> itself tells a timeout apart; the exception thrown after the loop has the name
  \<open>Error\<close> and holds the message text only.
\<close>

theorem retry_exhausted_counterexample:
  "fst (callRPC (timeout_world 2) (JStr ''getCurrentTime'') JUndefined
          (snd (callRPC (timeout_world 1) (JStr ''getCurrentTime'') JUndefined STATE))) =
     Inl (JsError ''AbortError'' ''signal is aborted without reason'') \<and>
   fst (callRPCWithRetry timeout_world (JStr ''getCurrentTime'') JUndefined (Some 2) STATE) =
     Inl (JsError ''Error'' ''Failed after 2 attempts: signal is aborted without reason'')"
  by code_simp

subsection \<open>C9: one call in flight\<close>

text \<open>
  C9. While the flag \<open>isLoading\<close> is set, a further call is turned away at once: it sends no
  request, returns \<open>undefined\<close> and leaves the state as it is, the flag included. Clearing
  the history leaves the flag set. The completion of the outstanding call clears it, whatever
  the outcome. Starting a call leaves the flag set in every state.
\<close>

theorem single_call_in_flight:
  assumes "isLoading s"
  shows "callRPC_start env m p s = (None, s) \<and>
         callRPC env m p s = (Inr JUndefined, s) \<and>
         isLoading (clearHistory s) \<and>
         \<not> isLoading (snd (callRPC_settle env' m' rq s)) \<and>
         isLoading (snd (callRPC_start env0 m0 p0 s0))"
  using assms
  by (simp add: callRPC_start_busy callRPC_busy clearHistory_def) (simp add: callRPC_start_def)

theorem single_call_in_flight_witness:
  "isLoading (snd (callRPC_start (timeout_world 1) (JStr ''getCurrentTime'') JUndefined STATE)) \<and>
   callRPC (timeout_world 2) (JStr ''getTimeZone'') JUndefined
       (snd (callRPC_start (timeout_world 1) (JStr ''getCurrentTime'') JUndefined STATE)) =
     (Inr JUndefined, STATE\<lparr>isLoading := True, totalRequests := 1\<rparr>) \<and>
   \<not> isLoading (snd (callRPC_settle (timeout_world 1) (JStr ''getCurrentTime'') JNull
       (snd (callRPC_start (timeout_world 1) (JStr ''getCurrentTime'') JUndefined STATE))))"
proof -
  have l: "isLoading (snd (callRPC_start (timeout_world 1) (JStr ''getCurrentTime'') JUndefined
      STATE))"
    by (simp add: callRPC_start_def STATE_def)
  show ?thesis
    using l single_call_in_flight [OF l, of "timeout_world 2" "JStr ''getTimeZone''" JUndefined
        "timeout_world 1" "JStr ''getCurrentTime''" JNull]
    by (simp add: callRPC_start_def STATE_def)
qed

subsection \<open>C10: the history holds at most 50 entries\<close>

text \<open>
  C10. In every state the client reaches, the history holds at most 50 entries. Recording an
  outcome appends the entry, after dropping the oldest entry when 50 are held already, and the
  history still holds at most 50 entries; clearing the history leaves none.
\<close>

theorem requestHistory_bounded:
  assumes "reachable s"
  shows "length (requestHistory s) \<le> 50 \<and>
         requestHistory (addToHistory stamp m rq rs ok s) =
           (if length (requestHistory s) < 50 then requestHistory s else tl (requestHistory s))
             @ [\<lparr>h_timestamp = stamp, h_method = m, h_request = rq, h_response = rs,
                 h_success = ok\<rparr>] \<and>
         length (requestHistory (addToHistory stamp m rq rs ok s)) \<le> 50 \<and>
         requestHistory (clearHistory s) = []"
  using reachable_bounded [OF assms]
  by (simp add: addToHistory_history clearHistory_def)

theorem requestHistory_bounded_witness:
  "reachable full_history \<and> length (requestHistory full_history) = 50 \<and>
   requestHistory (addToHistory ''2025-01-10T11:51:00.000Z'' (JStr ''getTimeZone'') JNull JNull
                     False full_history) =
     replicate 49 example_entry @
       [\<lparr>h_timestamp = ''2025-01-10T11:51:00.000Z'', h_method = JStr ''getTimeZone'',
         h_request = JNull, h_response = JNull, h_success = False\<rparr>] \<and>
   requestHistory (clearHistory full_history) = []"
proof -
  have r: "reachable full_history"
    unfolding full_history_def by (rule reachable_replicate) simp
  have t: "tl (replicate 50 example_entry) = replicate 49 example_entry"
    by (simp add: tl_replicate)
  show ?thesis
    using r requestHistory_bounded [OF r, of "''2025-01-10T11:51:00.000Z''" "JStr ''getTimeZone''"
        JNull JNull False] t
    by (simp add: full_history_def)
qed

end
